theory Spec2Isabelle
  imports Main "HOL-Library.Word"
begin

section \<open>EncryptedSurveySystem (contracts/PulseCheck\_FHE.sol)\<close>

text \<open>
  A shallow embedding of the Solidity contract \<^verbatim>\<open>EncryptedSurveySystem\<close>.
  \<^item> \<^verbatim>\<open>uint256\<close> is \<open>256 word\<close>, \<^verbatim>\<open>uint32\<close> is \<open>32 word\<close>, \<^verbatim>\<open>bytes\<close> a list of
    bytes, \<^verbatim>\<open>string\<close> a \<open>string\<close>; \<^verbatim>\<open>euint32\<close> and \<^verbatim>\<open>externalEuint32\<close> are
    user-defined value types over \<^verbatim>\<open>bytes32\<close>, so handles are \<open>256 word\<close> too.
  \<^item> A Solidity \<^verbatim>\<open>mapping\<close> is total: a key never written reads as the zero value of
    its type. The three mappings are therefore total functions.
  \<^item> Every \<^verbatim>\<open>require\<close> and every revert raised by a callee is an \<open>error\<close> value.
    The body of a state-changing function returns the storage as it stands when the
    body stops, together with the outcome; \<open>transact\<close> then applies the rule of
    the execution environment that a reverted call leaves the storage untouched.
  \<^item> The FHE library (\<^verbatim>\<open>@fhevm/solidity/lib/FHE.sol\<close>) is not part of the
    repository: the functions the contract calls are parameters, collected in the
    record \<open>fhe\<close>.
\<close>

type_synonym uint256 = "256 word"
type_synonym uint32 = "32 word"
type_synonym bytes32 = "256 word"
type_synonym bytes = "8 word list"
type_synonym euint32 = "256 word"
type_synonym externalEuint32 = "256 word"

subsection \<open>Storage\<close>

record EncryptedResponse =
  encryptedScore :: euint32
  departmentId :: uint256
  questionId :: uint256
  timestamp :: uint256
  isVerified :: bool
  decryptedScore :: uint32

record SurveyMetadata =
  surveyName :: string
  startTime :: uint256
  endTime :: uint256
  isActive :: bool

datatype event =
    SurveyCreated uint256 string
  | ResponseSubmitted uint256 uint256 uint256
  | ResponseVerified uint256 uint256 uint256 uint32

record contract =
  surveys :: "uint256 \<Rightarrow> SurveyMetadata"
  responses :: "uint256 \<Rightarrow> uint256 \<Rightarrow> EncryptedResponse list"
  responseCounts :: "uint256 \<Rightarrow> uint256"
  events :: "event list"

text \<open>The storage right after deployment: every slot is zero, nothing was emitted.\<close>

definition deployed :: contract where
  "deployed =
     \<lparr>surveys = (\<lambda>_. \<lparr>surveyName = [], startTime = 0, endTime = 0, isActive = False\<rparr>),
      responses = (\<lambda>_ _. []),
      responseCounts = (\<lambda>_. 0),
      events = []\<rparr>"

subsection \<open>Errors\<close>

text \<open>
  One constructor per way a call can revert. The names are those of the specification;
  the contract itself only has the messages of its \<^verbatim>\<open>require\<close> statements:
  \<^item> \<open>DuplicateSurvey\<close>: "Survey already exists";
  \<^item> \<open>InvalidTimeRange\<close>: "Invalid time range";
  \<^item> \<open>SurveyInactive\<close>: "Survey is not active";
  \<^item> \<open>OutOfWindow\<close>: "Survey not in progress";
  \<^item> \<open>InvalidEncryptedInput\<close>: "Invalid encrypted input", and a revert inside
    \<^verbatim>\<open>FHE.fromExternal\<close>;
  \<^item> \<open>AclRevert\<close>: a revert inside \<^verbatim>\<open>FHE.allowThis\<close> or
    \<^verbatim>\<open>FHE.makePubliclyDecryptable\<close>;
  \<^item> \<open>CounterOverflow\<close>: the arithmetic panic of the checked \<^verbatim>\<open>++\<close>;
  \<^item> \<open>IndexOutOfRange\<close>: "Invalid response index";
  \<^item> \<open>AlreadyVerified\<close>: "Response already verified";
  \<^item> \<open>InvalidDecryptionProof\<close>: a revert inside \<^verbatim>\<open>FHE.checkSignatures\<close>;
  \<^item> \<open>MalformedClearValue\<close>: a revert of \<^verbatim>\<open>abi.decode\<close>;
  \<^item> \<open>NotYetVerified\<close>: "Response not verified";
  \<^item> \<open>SurveyAlreadyClosed\<close>: "Survey already closed";
  \<^item> \<open>SurveyStillInProgress\<close>: "Survey still in progress".
\<close>

datatype error =
    DuplicateSurvey
  | InvalidTimeRange
  | SurveyInactive
  | OutOfWindow
  | InvalidEncryptedInput
  | AclRevert
  | CounterOverflow
  | IndexOutOfRange
  | AlreadyVerified
  | InvalidDecryptionProof
  | MalformedClearValue
  | NotYetVerified
  | SurveyAlreadyClosed
  | SurveyStillInProgress

subsection \<open>The FHE library, as parameters\<close>

text \<open>
  \<^item> \<open>fromExternal\<close>: \<^verbatim>\<open>FHE.fromExternal(handle, inputProof)\<close>; \<open>None\<close> when the
    library reverts, otherwise the verified handle;
  \<^item> \<open>isInitialized\<close>: \<^verbatim>\<open>FHE.isInitialized\<close>;
  \<^item> \<open>allowThis\<close>, \<open>makePubliclyDecryptable\<close>: the two grants; they write to
    the access-control contract of the library only, so here they are just the
    answer to "does the call return?";
  \<^item> \<open>toBytes32\<close>: \<^verbatim>\<open>FHE.toBytes32\<close>;
  \<^item> \<open>checkSignatures\<close>: \<^verbatim>\<open>FHE.checkSignatures(handles, cleartexts, proof)\<close>;
    \<open>False\<close> when the library reverts.
\<close>

record fhe =
  fromExternal :: "externalEuint32 \<Rightarrow> bytes \<Rightarrow> euint32 option"
  isInitialized :: "euint32 \<Rightarrow> bool"
  allowThis :: "euint32 \<Rightarrow> bool"
  makePubliclyDecryptable :: "euint32 \<Rightarrow> bool"
  toBytes32 :: "euint32 \<Rightarrow> bytes32"
  checkSignatures :: "bytes32 list \<Rightarrow> bytes \<Rightarrow> bytes \<Rightarrow> bool"

subsection \<open>\<^verbatim>\<open>abi.decode(data, (uint32))\<close>\<close>

text \<open>
  The decoder of the language (ABI coder v2, the default of the 0.8 compilers): it
  reads the first 32 bytes as a big-endian word and reverts when there are fewer than
  32 bytes or when the word does not fit the 32 bits of the target type.
\<close>

definition be_nat :: "bytes \<Rightarrow> nat" where
  "be_nat bs = foldl (\<lambda>a b. a * 256 + unat b) 0 bs"

definition abi_decode_uint32 :: "bytes \<Rightarrow> uint32 option" where
  "abi_decode_uint32 bs =
     (if length bs < 32 then None
      else let v = be_nat (take 32 bs)
           in if v < 2 ^ 32 then Some (of_nat v) else None)"

subsection \<open>State-changing functions\<close>

text \<open>
  Each body returns the storage at the point where it stops and \<open>Inl e\<close> for a
  revert or \<open>Inr vs\<close> for a return with the values \<open>vs\<close>. None of the four
  functions declares a return value, so a normal return is \<open>Inr []\<close>.
\<close>

type_synonym outcome = "error + uint256 list"

definition createSurvey ::
  "uint256 \<Rightarrow> string \<Rightarrow> uint256 \<Rightarrow> uint256 \<Rightarrow> contract \<Rightarrow> contract \<times> outcome" where
  "createSurvey sid name st en s =
     (if length (surveyName (surveys s sid)) \<noteq> 0 then (s, Inl DuplicateSurvey)
      else if \<not> en > st then (s, Inl InvalidTimeRange)
      else
        (s\<lparr>surveys := (surveys s)
               (sid := \<lparr>surveyName = name, startTime = st, endTime = en, isActive = True\<rparr>),
           events := events s @ [SurveyCreated sid name]\<rparr>,
         Inr []))"

text \<open>
  \<^verbatim>\<open>FHE.fromExternal\<close> is called twice with the same arguments (lines 61 and 63); it
  is a function of its arguments, so one lookup stands for both. The new element is
  pushed before the counter is incremented, as in the source; the increment is checked
  arithmetic and panics at \<open>2^256 - 1\<close>.
\<close>

definition submitEncryptedResponse ::
  "fhe \<Rightarrow> uint256 \<Rightarrow> uint256 \<Rightarrow> uint256 \<Rightarrow> uint256 \<Rightarrow> externalEuint32 \<Rightarrow> bytes
     \<Rightarrow> contract \<Rightarrow> contract \<times> outcome" where
  "submitEncryptedResponse lib now sid did qid encryptedScore' inputProof s =
     (if \<not> isActive (surveys s sid) then (s, Inl SurveyInactive)
      else if \<not> (now \<ge> startTime (surveys s sid) \<and> now \<le> endTime (surveys s sid))
        then (s, Inl OutOfWindow)
      else
        (case fromExternal lib encryptedScore' inputProof of
           None \<Rightarrow> (s, Inl InvalidEncryptedInput)
         | Some encryptedValue \<Rightarrow>
             if \<not> isInitialized lib encryptedValue then (s, Inl InvalidEncryptedInput)
             else if \<not> allowThis lib encryptedValue then (s, Inl AclRevert)
             else if \<not> makePubliclyDecryptable lib encryptedValue then (s, Inl AclRevert)
             else
               let s1 = s\<lparr>responses := (responses s)
                            (sid := (responses s sid)
                               (did := responses s sid did @
                                  [\<lparr>encryptedScore = encryptedValue,
                                    departmentId = did,
                                    questionId = qid,
                                    timestamp = now,
                                    isVerified = False,
                                    decryptedScore = 0\<rparr>]))\<rparr>
               in if responseCounts s1 sid = - 1 then (s1, Inl CounterOverflow)
                  else
                    (s1\<lparr>responseCounts := (responseCounts s1)
                           (sid := responseCounts s1 sid + 1),
                        events := events s1 @ [ResponseSubmitted sid did qid]\<rparr>,
                     Inr [])))"

definition verifyResponse ::
  "fhe \<Rightarrow> uint256 \<Rightarrow> uint256 \<Rightarrow> uint256 \<Rightarrow> uint256 \<Rightarrow> bytes \<Rightarrow> bytes
     \<Rightarrow> contract \<Rightarrow> contract \<times> outcome" where
  "verifyResponse lib sid did qid responseIndex abiEncodedClearValue decryptionProof s =
     (if \<not> unat responseIndex < length (responses s sid did) then (s, Inl IndexOutOfRange)
      else
        let response = responses s sid did ! unat responseIndex
        in if isVerified response then (s, Inl AlreadyVerified)
           else if \<not> checkSignatures lib [toBytes32 lib (encryptedScore response)]
                       abiEncodedClearValue decryptionProof
             then (s, Inl InvalidDecryptionProof)
           else
             (case abi_decode_uint32 abiEncodedClearValue of
                None \<Rightarrow> (s, Inl MalformedClearValue)
              | Some decodedValue \<Rightarrow>
                  (s\<lparr>responses := (responses s)
                        (sid := (responses s sid)
                           (did := (responses s sid did)
                              [unat responseIndex :=
                                 response\<lparr>decryptedScore := decodedValue,
                                          isVerified := True\<rparr>])),
                      events := events s @ [ResponseVerified sid did qid decodedValue]\<rparr>,
                   Inr [])))"

definition closeSurvey :: "uint256 \<Rightarrow> uint256 \<Rightarrow> contract \<Rightarrow> contract \<times> outcome" where
  "closeSurvey now sid s =
     (if \<not> isActive (surveys s sid) then (s, Inl SurveyAlreadyClosed)
      else if \<not> now > endTime (surveys s sid) then (s, Inl SurveyStillInProgress)
      else (s\<lparr>surveys := (surveys s)(sid := (surveys s sid)\<lparr>isActive := False\<rparr>)\<rparr>, Inr []))"

subsection \<open>View functions\<close>

definition getSurveyMetadata :: "contract \<Rightarrow> uint256 \<Rightarrow> string \<times> uint256 \<times> uint256 \<times> bool" where
  "getSurveyMetadata s sid =
     (let survey = surveys s sid
      in (surveyName survey, startTime survey, endTime survey, isActive survey))"

definition getResponseCount :: "contract \<Rightarrow> uint256 \<Rightarrow> uint256" where
  "getResponseCount s sid = responseCounts s sid"

definition getEncryptedResponse ::
  "contract \<Rightarrow> uint256 \<Rightarrow> uint256 \<Rightarrow> uint256 \<Rightarrow> uint256 \<Rightarrow> error + euint32" where
  "getEncryptedResponse s sid did qid responseIndex =
     (if \<not> unat responseIndex < length (responses s sid did) then Inl IndexOutOfRange
      else Inr (encryptedScore (responses s sid did ! unat responseIndex)))"

definition getDecryptedResponse ::
  "contract \<Rightarrow> uint256 \<Rightarrow> uint256 \<Rightarrow> uint256 \<Rightarrow> uint256 \<Rightarrow> error + uint32" where
  "getDecryptedResponse s sid did qid responseIndex =
     (if \<not> unat responseIndex < length (responses s sid did) then Inl IndexOutOfRange
      else if \<not> isVerified (responses s sid did ! unat responseIndex) then Inl NotYetVerified
      else Inr (decryptedScore (responses s sid did ! unat responseIndex)))"

definition getResponseDetails ::
  "contract \<Rightarrow> uint256 \<Rightarrow> uint256 \<Rightarrow> uint256 \<Rightarrow> uint256
     \<Rightarrow> error + (uint256 \<times> uint256 \<times> uint256 \<times> bool \<times> uint32)" where
  "getResponseDetails s sid did qid responseIndex =
     (if \<not> unat responseIndex < length (responses s sid did) then Inl IndexOutOfRange
      else
        let response = responses s sid did ! unat responseIndex
        in Inr (departmentId response, questionId response, timestamp response,
                isVerified response, decryptedScore response))"

subsection \<open>Transactions\<close>

text \<open>
  A call of one of the four state-changing functions. The block timestamp is not an
  argument of the call: it comes with the transaction.
\<close>

datatype call =
    CreateSurvey uint256 string uint256 uint256
  | SubmitEncryptedResponse uint256 uint256 uint256 externalEuint32 bytes
  | VerifyResponse uint256 uint256 uint256 uint256 bytes bytes
  | CloseSurvey uint256

fun body :: "fhe \<Rightarrow> uint256 \<Rightarrow> call \<Rightarrow> contract \<Rightarrow> contract \<times> outcome" where
  "body lib now (CreateSurvey sid name st en) s = createSurvey sid name st en s"
| "body lib now (SubmitEncryptedResponse sid did qid enc pf) s =
     submitEncryptedResponse lib now sid did qid enc pf s"
| "body lib now (VerifyResponse sid did qid idx clr pf) s =
     verifyResponse lib sid did qid idx clr pf s"
| "body lib now (CloseSurvey sid) s = closeSurvey now sid s"

text \<open>A reverted call leaves the storage as it was before the call.\<close>

definition transact :: "fhe \<Rightarrow> uint256 \<Rightarrow> call \<Rightarrow> contract \<Rightarrow> contract \<times> outcome" where
  "transact lib now c s =
     (case body lib now c s of
        (s', Inr vs) \<Rightarrow> (s', Inr vs)
      | (s', Inl e) \<Rightarrow> (s, Inl e))"

text \<open>A history: transactions, each with its block timestamp, run one after another.\<close>

fun run :: "fhe \<Rightarrow> (uint256 \<times> call) list \<Rightarrow> contract \<Rightarrow> contract" where
  "run lib [] s = s"
| "run lib (tc # tcs) s = run lib tcs (fst (transact lib (fst tc) (snd tc) s))"

text \<open>
  \<open>succeeded lib P tcs s\<close>: running \<open>tcs\<close> from \<open>s\<close>, some call that satisfies \<open>P\<close>
  returned normally.
\<close>

fun succeeded :: "fhe \<Rightarrow> (call \<Rightarrow> bool) \<Rightarrow> (uint256 \<times> call) list \<Rightarrow> contract \<Rightarrow> bool" where
  "succeeded lib P [] s = False"
| "succeeded lib P (tc # tcs) s =
     ((P (snd tc) \<and> \<not> isl (snd (transact lib (fst tc) (snd tc) s)))
      \<or> succeeded lib P tcs (fst (transact lib (fst tc) (snd tc) s)))"

text \<open>Predicates that pick the calls of one kind, on one key, out of a history.\<close>

fun verifies :: "uint256 \<Rightarrow> uint256 \<Rightarrow> uint256 \<Rightarrow> call \<Rightarrow> bool" where
  "verifies sid did idx (VerifyResponse sid' did' qid idx' clr pf) =
     (sid' = sid \<and> did' = did \<and> idx' = idx)"
| "verifies sid did idx c = False"

fun creates :: "uint256 \<Rightarrow> call \<Rightarrow> bool" where
  "creates sid (CreateSurvey sid' name st en) = (sid' = sid)"
| "creates sid c = False"

fun submits :: "uint256 \<Rightarrow> call \<Rightarrow> bool" where
  "submits sid (SubmitEncryptedResponse sid' did qid enc pf) = (sid' = sid)"
| "submits sid c = False"

text \<open>
  \<open>accepted lib sid did tcs s\<close>: the submissions for \<open>(sid, did)\<close> that returned
  normally when \<open>tcs\<close> ran from \<open>s\<close>, in the order of the history, each as the
  verified handle, the question and the block timestamp.
\<close>

fun accepted ::
  "fhe \<Rightarrow> uint256 \<Rightarrow> uint256 \<Rightarrow> (uint256 \<times> call) list \<Rightarrow> contract
     \<Rightarrow> (euint32 \<times> uint256 \<times> uint256) list" where
  "accepted lib sid did [] s = []"
| "accepted lib sid did (tc # tcs) s =
     (case snd tc of
        SubmitEncryptedResponse sid' did' qid enc pf \<Rightarrow>
          if sid' = sid \<and> did' = did \<and> \<not> isl (snd (transact lib (fst tc) (snd tc) s))
          then [(the (fromExternal lib enc pf), qid, fst tc)]
          else []
      | _ \<Rightarrow> [])
     @ accepted lib sid did tcs (fst (transact lib (fst tc) (snd tc) s))"

definition core :: "EncryptedResponse \<Rightarrow> euint32 \<times> uint256 \<times> uint256" where
  "core r = (encryptedScore r, questionId r, timestamp r)"

subsection \<open>A library and inputs to run the contract on\<close>

text \<open>
  A stand-in for the FHE library, to evaluate the contract at concrete inputs: an input
  is accepted when its proof is not empty, a handle is initialized when it is not zero,
  the grants return, and a decryption proof is accepted when it repeats the cleartext.
\<close>

definition mock_fhe :: fhe where
  "mock_fhe =
     \<lparr>fromExternal = (\<lambda>h p. if p = [] then None else Some h),
      isInitialized = (\<lambda>h. h \<noteq> 0),
      allowThis = (\<lambda>_. True),
      makePubliclyDecryptable = (\<lambda>_. True),
      toBytes32 = (\<lambda>h. h),
      checkSignatures = (\<lambda>hs clr pf. pf = clr)\<rparr>"

text \<open>The ABI encoding of the value 8: one 32-byte word, big-endian.\<close>

definition clear8 :: bytes where
  "clear8 = [0,0,0,0,0,0,0,0, 0,0,0,0,0,0,0,0, 0,0,0,0,0,0,0,0, 0,0,0,0,0,0,0,8]"

text \<open>
  The scenario of the specification: survey 1 with the window \<open>[100, 200]\<close> is created
  at time 50; at time 150 a score is submitted for department 1, question 7.
\<close>

definition scenario :: "(uint256 \<times> call) list" where
  "scenario =
     [(50, CreateSurvey 1 ''S1'' 100 200),
      (150, SubmitEncryptedResponse 1 1 7 99 [1])]"

text \<open>
  Two more histories: the survey of the scenario, closed at time 250 after its window;
  and a survey created with the empty string as its name, then closed.
\<close>

definition closed_history :: "(uint256 \<times> call) list" where
  "closed_history = [(50, CreateSurvey 1 ''S1'' 100 200), (250, CloseSurvey 1)]"

definition unnamed_history :: "(uint256 \<times> call) list" where
  "unnamed_history = [(50, CreateSurvey 1 [] 100 200), (250, CloseSurvey 1)]"

section \<open>Properties\<close>

subsection \<open>The outcome and the effect of one call\<close>

lemmas op_defs = createSurvey_def submitEncryptedResponse_def verifyResponse_def closeSurvey_def

lemma transact_fail: "snd (transact lib now c s) = Inl e \<Longrightarrow> fst (transact lib now c s) = s"
  by (auto simp: transact_def split: prod.splits sum.splits)

lemma snd_transact: "snd (transact lib now c s) = snd (body lib now c s)"
  by (auto simp: transact_def split: prod.splits sum.splits)

lemma body_fail_early:
  "snd (body lib now c s) = Inl e \<Longrightarrow> e \<noteq> CounterOverflow \<Longrightarrow> fst (body lib now c s) = s"
  by (cases c)
     (auto simp: createSurvey_def submitEncryptedResponse_def verifyResponse_def closeSurvey_def
        Let_def split: if_splits option.splits)

lemma create_outcome:
  "snd (transact lib now (CreateSurvey sid name st en) s) =
     (if surveyName (surveys s sid) \<noteq> [] then Inl DuplicateSurvey
      else if \<not> st < en then Inl InvalidTimeRange else Inr [])"
  by (auto simp: snd_transact createSurvey_def)

lemma submit_outcome:
  "snd (transact lib now (SubmitEncryptedResponse sid did qid enc pf) s) =
     (if \<not> isActive (surveys s sid) then Inl SurveyInactive
      else if now < startTime (surveys s sid) \<or> now > endTime (surveys s sid) then Inl OutOfWindow
      else case fromExternal lib enc pf of
             None \<Rightarrow> Inl InvalidEncryptedInput
           | Some h \<Rightarrow>
               if \<not> isInitialized lib h then Inl InvalidEncryptedInput
               else if \<not> allowThis lib h \<or> \<not> makePubliclyDecryptable lib h then Inl AclRevert
               else if responseCounts s sid = - 1 then Inl CounterOverflow
               else Inr [])"
  by (auto simp: snd_transact submitEncryptedResponse_def Let_def not_le split: option.splits)

lemma verify_outcome:
  "snd (transact lib now (VerifyResponse sid did qid idx clr pf) s) =
     (if \<not> unat idx < length (responses s sid did) then Inl IndexOutOfRange
      else if isVerified (responses s sid did ! unat idx) then Inl AlreadyVerified
      else if \<not> checkSignatures lib [toBytes32 lib (encryptedScore (responses s sid did ! unat idx))] clr pf
        then Inl InvalidDecryptionProof
      else case abi_decode_uint32 clr of None \<Rightarrow> Inl MalformedClearValue | Some v \<Rightarrow> Inr [])"
  by (auto simp: snd_transact verifyResponse_def Let_def split: option.splits)

lemma close_outcome:
  "snd (transact lib now (CloseSurvey sid) s) =
     (if \<not> isActive (surveys s sid) then Inl SurveyAlreadyClosed
      else if \<not> endTime (surveys s sid) < now then Inl SurveyStillInProgress else Inr [])"
  by (auto simp: snd_transact closeSurvey_def)

text \<open>What a call does to one survey record, one response sequence, one counter.\<close>

lemma surveys_step:
  "surveys (fst (transact lib now c s)) sid =
     (if creates sid c \<and> \<not> isl (snd (transact lib now c s))
      then (case c of CreateSurvey sid' name st en \<Rightarrow>
              \<lparr>surveyName = name, startTime = st, endTime = en, isActive = True\<rparr>)
      else if c = CloseSurvey sid \<and> \<not> isl (snd (transact lib now c s))
      then (surveys s sid)\<lparr>isActive := False\<rparr>
      else surveys s sid)"
  by (cases c) (auto simp: transact_def op_defs Let_def split: option.splits)

lemma responses_step:
  "responses (fst (transact lib now c s)) sid did =
     (case c of
        SubmitEncryptedResponse sid' did' qid enc pf \<Rightarrow>
          if sid' = sid \<and> did' = did \<and> \<not> isl (snd (transact lib now c s))
          then responses s sid did @
                 [\<lparr>encryptedScore = the (fromExternal lib enc pf), departmentId = did,
                   questionId = qid, timestamp = now, isVerified = False, decryptedScore = 0\<rparr>]
          else responses s sid did
      | VerifyResponse sid' did' qid idx clr pf \<Rightarrow>
          if sid' = sid \<and> did' = did \<and> \<not> isl (snd (transact lib now c s))
          then (responses s sid did)
                 [unat idx := (responses s sid did ! unat idx)
                    \<lparr>decryptedScore := the (abi_decode_uint32 clr), isVerified := True\<rparr>]
          else responses s sid did
      | _ \<Rightarrow> responses s sid did)"
  by (cases c) (auto simp: transact_def op_defs Let_def split: option.splits)

lemma counts_step:
  "responseCounts (fst (transact lib now c s)) sid =
     (if submits sid c \<and> \<not> isl (snd (transact lib now c s))
      then responseCounts s sid + 1 else responseCounts s sid)"
  by (cases c) (auto simp: transact_def op_defs Let_def split: option.splits)

lemma verify_success:
  "\<not> isl (snd (transact lib now (VerifyResponse sid did qid idx clr pf) s)) \<Longrightarrow>
     unat idx < length (responses s sid did)
     \<and> \<not> isVerified (responses s sid did ! unat idx)
     \<and> checkSignatures lib [toBytes32 lib (encryptedScore (responses s sid did ! unat idx))] clr pf
     \<and> abi_decode_uint32 clr \<noteq> None"
  by (auto simp: verify_outcome split: if_splits option.splits)

lemma submit_success_count:
  "\<not> isl (snd (transact lib now (SubmitEncryptedResponse sid did qid enc pf) s)) \<Longrightarrow>
     responseCounts s sid \<noteq> - 1"
  by (auto simp: submit_outcome split: if_splits option.splits)

subsection \<open>The scenario, evaluated\<close>

lemma run_scenario_survey:
  "surveys (run mock_fhe scenario deployed) 1
     = \<lparr>surveyName = ''S1'', startTime = 100, endTime = 200, isActive = True\<rparr>"
  by (simp add: scenario_def transact_def op_defs deployed_def mock_fhe_def Let_def)

lemma run_scenario_count: "responseCounts (run mock_fhe scenario deployed) 1 = 1"
  by (simp add: scenario_def transact_def op_defs deployed_def mock_fhe_def Let_def)

lemma run_scenario_responses:
  "responses (run mock_fhe scenario deployed) 1 1
     = [\<lparr>encryptedScore = 99, departmentId = 1, questionId = 7, timestamp = 150,
         isVerified = False, decryptedScore = 0\<rparr>]"
  by (simp add: scenario_def transact_def op_defs deployed_def mock_fhe_def Let_def)

lemma scenario_no_verify: "\<not> succeeded mock_fhe (verifies 1 1 0) scenario deployed"
  by (simp add: scenario_def)

lemma run_closed_survey:
  "surveys (run mock_fhe closed_history deployed) 1
     = \<lparr>surveyName = ''S1'', startTime = 100, endTime = 200, isActive = False\<rparr>"
  by (simp add: closed_history_def transact_def op_defs deployed_def Let_def)

lemma clear8_decodes: "abi_decode_uint32 clear8 = Some 8"
  by (simp add: abi_decode_uint32_def clear8_def be_nat_def)

subsection \<open>Reverted calls\<close>

text \<open>
  C8. A call that reverts, with whatever error, leaves the whole storage (survey
  metadata, response sequences, counters, and the event log) as it was before the
  call. Moreover, for every error but the arithmetic panic of the counter, the body has
  not written anything when it stops: all the checks that raise a named error come
  before the first write. This is evaluated below on the state of the scenario, where
  a survey, a response and a counter are stored, for a failing call of each of the four
  functions.
\<close>

theorem failed_call_changes_nothing:
  "snd (transact lib now c s) = Inl e \<Longrightarrow>
     fst (transact lib now c s) = s \<and> (e \<noteq> CounterOverflow \<longrightarrow> fst (body lib now c s) = s)"
  using transact_fail body_fail_early snd_transact by metis

theorem failed_call_changes_nothing_witness:
  "getSurveyMetadata (run mock_fhe scenario deployed) 1 = (''S1'', 100, 200, True)
   \<and> getResponseCount (run mock_fhe scenario deployed) 1 = 1
   \<and> length (responses (run mock_fhe scenario deployed) 1 1) = 1
   \<and> snd (transact mock_fhe 160 (VerifyResponse 1 1 7 0 clear8 [])
           (run mock_fhe scenario deployed)) = Inl InvalidDecryptionProof
   \<and> fst (transact mock_fhe 160 (VerifyResponse 1 1 7 0 clear8 [])
           (run mock_fhe scenario deployed)) = run mock_fhe scenario deployed
   \<and> fst (body mock_fhe 160 (VerifyResponse 1 1 7 0 clear8 [])
           (run mock_fhe scenario deployed)) = run mock_fhe scenario deployed
   \<and> snd (transact mock_fhe 160 (VerifyResponse 1 1 7 0 [8] [8])
           (run mock_fhe scenario deployed)) = Inl MalformedClearValue
   \<and> fst (transact mock_fhe 160 (VerifyResponse 1 1 7 0 [8] [8])
           (run mock_fhe scenario deployed)) = run mock_fhe scenario deployed
   \<and> fst (body mock_fhe 160 (VerifyResponse 1 1 7 0 [8] [8])
           (run mock_fhe scenario deployed)) = run mock_fhe scenario deployed
   \<and> snd (transact mock_fhe 250 (SubmitEncryptedResponse 1 1 8 77 [1])
           (run mock_fhe scenario deployed)) = Inl OutOfWindow
   \<and> fst (transact mock_fhe 250 (SubmitEncryptedResponse 1 1 8 77 [1])
           (run mock_fhe scenario deployed)) = run mock_fhe scenario deployed
   \<and> fst (body mock_fhe 250 (SubmitEncryptedResponse 1 1 8 77 [1])
           (run mock_fhe scenario deployed)) = run mock_fhe scenario deployed
   \<and> snd (transact mock_fhe 160 (SubmitEncryptedResponse 1 1 8 77 [])
           (run mock_fhe scenario deployed)) = Inl InvalidEncryptedInput
   \<and> fst (transact mock_fhe 160 (SubmitEncryptedResponse 1 1 8 77 [])
           (run mock_fhe scenario deployed)) = run mock_fhe scenario deployed
   \<and> fst (body mock_fhe 160 (SubmitEncryptedResponse 1 1 8 77 [])
           (run mock_fhe scenario deployed)) = run mock_fhe scenario deployed
   \<and> snd (transact mock_fhe 160 (CreateSurvey 1 ''S2'' 300 400)
           (run mock_fhe scenario deployed)) = Inl DuplicateSurvey
   \<and> fst (transact mock_fhe 160 (CreateSurvey 1 ''S2'' 300 400)
           (run mock_fhe scenario deployed)) = run mock_fhe scenario deployed
   \<and> fst (body mock_fhe 160 (CreateSurvey 1 ''S2'' 300 400)
           (run mock_fhe scenario deployed)) = run mock_fhe scenario deployed
   \<and> snd (transact mock_fhe 160 (CloseSurvey 1)
           (run mock_fhe scenario deployed)) = Inl SurveyStillInProgress
   \<and> fst (transact mock_fhe 160 (CloseSurvey 1)
           (run mock_fhe scenario deployed)) = run mock_fhe scenario deployed
   \<and> fst (body mock_fhe 160 (CloseSurvey 1)
           (run mock_fhe scenario deployed)) = run mock_fhe scenario deployed"
proof -
  have proof_rejected:
    "snd (transact mock_fhe 160 (VerifyResponse 1 1 7 0 clear8 [])
       (run mock_fhe scenario deployed)) = Inl InvalidDecryptionProof"
    by (simp add: verify_outcome run_scenario_responses) (simp add: mock_fhe_def clear8_def)
  have malformed:
    "snd (transact mock_fhe 160 (VerifyResponse 1 1 7 0 [8] [8])
       (run mock_fhe scenario deployed)) = Inl MalformedClearValue"
    by (simp add: verify_outcome run_scenario_responses abi_decode_uint32_def)
       (simp add: mock_fhe_def)
  have late:
    "snd (transact mock_fhe 250 (SubmitEncryptedResponse 1 1 8 77 [1])
       (run mock_fhe scenario deployed)) = Inl OutOfWindow"
    by (simp add: submit_outcome run_scenario_survey)
  have bad_input:
    "snd (transact mock_fhe 160 (SubmitEncryptedResponse 1 1 8 77 [])
       (run mock_fhe scenario deployed)) = Inl InvalidEncryptedInput"
    by (simp add: submit_outcome run_scenario_survey) (simp add: mock_fhe_def)
  have duplicate:
    "snd (transact mock_fhe 160 (CreateSurvey 1 ''S2'' 300 400)
       (run mock_fhe scenario deployed)) = Inl DuplicateSurvey"
    by (simp add: create_outcome run_scenario_survey)
  have early:
    "snd (transact mock_fhe 160 (CloseSurvey 1)
       (run mock_fhe scenario deployed)) = Inl SurveyStillInProgress"
    by (simp add: close_outcome run_scenario_survey)
  have populated:
    "getSurveyMetadata (run mock_fhe scenario deployed) 1 = (''S1'', 100, 200, True)
     \<and> getResponseCount (run mock_fhe scenario deployed) 1 = 1
     \<and> length (responses (run mock_fhe scenario deployed) 1 1) = 1"
    by (simp add: getSurveyMetadata_def getResponseCount_def run_scenario_survey
          run_scenario_count run_scenario_responses)
  show ?thesis
    using populated proof_rejected malformed late bad_input duplicate early
      failed_call_changes_nothing [OF proof_rejected]
      failed_call_changes_nothing [OF malformed]
      failed_call_changes_nothing [OF late]
      failed_call_changes_nothing [OF bad_input]
      failed_call_changes_nothing [OF duplicate]
      failed_call_changes_nothing [OF early]
    by simp
qed

subsection \<open>Creating a survey\<close>

text \<open>
  The guard of \<^verbatim>\<open>createSurvey\<close> takes a stored name of length zero to mean "no
  such survey". A survey whose name is not empty keeps its name and its window for
  ever, can only go from active to inactive, and can never be created again.
\<close>

lemma named_step:
  assumes "surveyName (surveys s sid) \<noteq> []"
  shows "surveyName (surveys (fst (transact lib now c s)) sid) = surveyName (surveys s sid)
         \<and> startTime (surveys (fst (transact lib now c s)) sid) = startTime (surveys s sid)
         \<and> endTime (surveys (fst (transact lib now c s)) sid) = endTime (surveys s sid)
         \<and> (isActive (surveys (fst (transact lib now c s)) sid) \<longrightarrow> isActive (surveys s sid))"
  using assms by (cases c) (auto simp: surveys_step create_outcome)

lemma named_run:
  "surveyName (surveys s sid) \<noteq> [] \<Longrightarrow>
     surveyName (surveys (run lib tcs s) sid) = surveyName (surveys s sid)
     \<and> startTime (surveys (run lib tcs s) sid) = startTime (surveys s sid)
     \<and> endTime (surveys (run lib tcs s) sid) = endTime (surveys s sid)
     \<and> (isActive (surveys (run lib tcs s) sid) \<longrightarrow> isActive (surveys s sid))"
proof (induction tcs arbitrary: s)
  case Nil
  then show ?case by simp
next
  case (Cons tc tcs)
  let ?s' = "fst (transact lib (fst tc) (snd tc) s)"
  note st = named_step [OF Cons.prems, of lib "fst tc" "snd tc"]
  then have "surveyName (surveys ?s' sid) \<noteq> []" using Cons.prems by simp
  from Cons.IH [OF this] st show ?case by simp
qed

lemma named_survey_created_once:
  assumes "name \<noteq> []"
    and "snd (transact lib now (CreateSurvey sid name st en) s) = Inr []"
  shows "transact lib now' (CreateSurvey sid name' st' en')
           (run lib tcs (fst (transact lib now (CreateSurvey sid name st en) s)))
         = (run lib tcs (fst (transact lib now (CreateSurvey sid name st en) s)), Inl DuplicateSurvey)
       \<and> getSurveyMetadata (run lib tcs (fst (transact lib now (CreateSurvey sid name st en) s))) sid
         = (name, st, en, isActive (surveys (run lib tcs (fst (transact lib now (CreateSurvey sid name st en) s))) sid))"
proof -
  let ?s1 = "fst (transact lib now (CreateSurvey sid name st en) s)"
  have s1: "surveys ?s1 sid = \<lparr>surveyName = name, startTime = st, endTime = en, isActive = True\<rparr>"
    using assms(2) by (simp add: surveys_step)
  then have nm: "surveyName (surveys ?s1 sid) \<noteq> []" using assms(1) by simp
  note keep = named_run [OF nm, of lib tcs]
  have "snd (transact lib now' (CreateSurvey sid name' st' en') (run lib tcs ?s1)) = Inl DuplicateSurvey"
    using keep nm by (simp add: create_outcome)
  then have "transact lib now' (CreateSurvey sid name' st' en') (run lib tcs ?s1)
               = (run lib tcs ?s1, Inl DuplicateSurvey)"
    using transact_fail [of lib now' _ "run lib tcs ?s1" DuplicateSurvey] by (metis prod.collapse)
  then show ?thesis using keep s1 by (simp add: getSurveyMetadata_def Let_def)
qed

lemma closed_named_survey_stays_closed:
  "surveyName (surveys s sid) \<noteq> [] \<Longrightarrow> \<not> isActive (surveys s sid) \<Longrightarrow>
     \<not> isActive (surveys (run lib tcs s) sid)"
  using named_run [of s sid lib tcs] by blast

text \<open>
  C3. The claim: after a first successful \<^verbatim>\<open>createSurvey(id, ...)\<close>, a second one
  fails with \<open>DuplicateSurvey\<close> and leaves the metadata unchanged, whatever the names.
  The contract evaluated where the first name is the empty string: both calls return
  normally, and the second one replaces the name and the window.
\<close>

theorem createSurvey_unnamed_twice:
  "snd (transact mock_fhe 50 (CreateSurvey 1 [] 100 200) deployed) = Inr []
   \<and> snd (transact mock_fhe 60 (CreateSurvey 1 ''Q3'' 300 400)
           (fst (transact mock_fhe 50 (CreateSurvey 1 [] 100 200) deployed))) = Inr []
   \<and> getSurveyMetadata
        (fst (transact mock_fhe 50 (CreateSurvey 1 [] 100 200) deployed)) 1
       = ([], 100, 200, True)
   \<and> getSurveyMetadata
        (fst (transact mock_fhe 60 (CreateSurvey 1 ''Q3'' 300 400)
           (fst (transact mock_fhe 50 (CreateSurvey 1 [] 100 200) deployed)))) 1
       = (''Q3'', 300, 400, True)"
  by (simp add: transact_def op_defs deployed_def getSurveyMetadata_def Let_def)

text \<open>
  C4. The claim: once \<^verbatim>\<open>closeSurvey\<close> has made a survey inactive, no sequence of calls
  makes it active again. The contract evaluated on a survey created with the empty
  string as its name: it is active, \<^verbatim>\<open>closeSurvey\<close> returns normally and makes it
  inactive, and a further \<^verbatim>\<open>createSurvey\<close> makes it active again.
\<close>

theorem closed_unnamed_survey_reopens:
  "isActive (surveys (run mock_fhe [(50, CreateSurvey 1 [] 100 200)] deployed) 1)
   \<and> snd (transact mock_fhe 250 (CloseSurvey 1)
           (run mock_fhe [(50, CreateSurvey 1 [] 100 200)] deployed)) = Inr []
   \<and> \<not> isActive (surveys (run mock_fhe unnamed_history deployed) 1)
   \<and> isActive (surveys (run mock_fhe [(260, CreateSurvey 1 ''S1'' 300 400)]
                  (run mock_fhe unnamed_history deployed)) 1)"
  by (simp add: unnamed_history_def transact_def op_defs deployed_def Let_def)

subsection \<open>Indices of responses\<close>

lemma core_step:
  "map core (responses (fst (transact lib now c s)) sid did) =
     map core (responses s sid did) @
     (case c of
        SubmitEncryptedResponse sid' did' qid enc pf \<Rightarrow>
          if sid' = sid \<and> did' = did \<and> \<not> isl (snd (transact lib now c s))
          then [(the (fromExternal lib enc pf), qid, now)]
          else []
      | _ \<Rightarrow> [])"
proof (cases c)
  case (VerifyResponse sid' did' qid idx clr pf)
  have "map core ((responses s sid did)[unat idx := (responses s sid did ! unat idx)
          \<lparr>decryptedScore := v, isVerified := True\<rparr>]) = map core (responses s sid did)" for v
  proof (cases "unat idx < length (responses s sid did)")
    case True
    then show ?thesis by (simp add: map_update list_update_same_conv core_def)
  next
    case False
    then show ?thesis by (simp add: list_update_beyond)
  qed
  then show ?thesis by (simp add: VerifyResponse responses_step)
qed (auto simp: responses_step core_def)

lemma accepted_run:
  "map core (responses (run lib tcs s) sid did)
     = map core (responses s sid did) @ accepted lib sid did tcs s"
proof (induction tcs arbitrary: s)
  case Nil
  show ?case by simp
next
  case (Cons tc tcs)
  show ?case
    using Cons.IH [of "fst (transact lib (fst tc) (snd tc) s)"]
      core_step [of lib "fst tc" "snd tc" s sid did]
    by (simp split: call.splits)
qed

text \<open>
  C2, as amended. \<^verbatim>\<open>submitEncryptedResponse\<close> declares no return value, so a successful
  call returns nothing; the new response is stored at the end of the sequence of its
  \<open>(surveyId, departmentId)\<close>, that is at the index equal to the previous length. Over
  any history, the sequence of a key is what it was at the start followed by the
  accepted submissions for that key, in the order of the history: after \<open>N\<close> of them
  from the deployed contract they sit at the indices \<open>0..N-1\<close>, none reused or skipped
  (verification changes neither handle, question nor timestamp of an entry).
\<close>

theorem submissions_fill_indices_in_order:
  "map core (responses (run lib tcs s) sid did)
     = map core (responses s sid did) @ accepted lib sid did tcs s
   \<and> (\<not> isl (snd (transact lib now (SubmitEncryptedResponse sid did qid enc pf) s)) \<longrightarrow>
        snd (transact lib now (SubmitEncryptedResponse sid did qid enc pf) s) = Inr []
        \<and> responses (fst (transact lib now (SubmitEncryptedResponse sid did qid enc pf) s)) sid did
          = responses s sid did @
              [\<lparr>encryptedScore = the (fromExternal lib enc pf), departmentId = did,
                questionId = qid, timestamp = now, isVerified = False, decryptedScore = 0\<rparr>])"
proof -
  have "snd (transact lib now (SubmitEncryptedResponse sid did qid enc pf) s) = Inr []"
    if "\<not> isl (snd (transact lib now (SubmitEncryptedResponse sid did qid enc pf) s))"
    using that by (auto simp: submit_outcome split: if_splits option.splits)
  then show ?thesis by (simp add: accepted_run responses_step)
qed

theorem submissions_fill_indices_in_order_witness:
  "map core (responses (run mock_fhe scenario deployed) 1 1) = [(99, 7, 150)]
   \<and> accepted mock_fhe 1 1 scenario deployed = [(99, 7, 150)]
   \<and> snd (transact mock_fhe 160 (SubmitEncryptedResponse 1 1 8 77 [1])
           (run mock_fhe scenario deployed)) = Inr []
   \<and> responses (fst (transact mock_fhe 160 (SubmitEncryptedResponse 1 1 8 77 [1])
                       (run mock_fhe scenario deployed))) 1 1
       = [\<lparr>encryptedScore = 99, departmentId = 1, questionId = 7, timestamp = 150,
           isVerified = False, decryptedScore = 0\<rparr>,
          \<lparr>encryptedScore = 77, departmentId = 1, questionId = 8, timestamp = 160,
           isVerified = False, decryptedScore = 0\<rparr>]"
proof -
  have acc: "accepted mock_fhe 1 1 scenario deployed = [(99, 7, 150)]"
    by (simp add: scenario_def transact_def op_defs deployed_def mock_fhe_def Let_def)
  have ok: "\<not> isl (snd (transact mock_fhe 160 (SubmitEncryptedResponse 1 1 8 77 [1])
                      (run mock_fhe scenario deployed)))"
    by (simp add: submit_outcome run_scenario_survey run_scenario_count) (simp add: mock_fhe_def)
  have ext: "the (fromExternal mock_fhe 77 [1]) = 77"
    by (simp add: mock_fhe_def)
  show ?thesis
    using submissions_fill_indices_in_order [of mock_fhe scenario deployed 1 1 160 8 77 "[1]"]
      submissions_fill_indices_in_order
        [of mock_fhe "[]" "run mock_fhe scenario deployed" 1 1 160 8 77 "[1]"]
      acc ok ext
    by (simp add: run_scenario_responses)
qed

text \<open>
  The claim as stated fails: the first accepted submission for a key returns no index.
\<close>

theorem submit_returns_nothing_counterexample:
  "length (responses (run mock_fhe [(50, CreateSurvey 1 ''S1'' 100 200)] deployed) 1 1) = 0
   \<and> snd (transact mock_fhe 150 (SubmitEncryptedResponse 1 1 7 99 [1])
           (run mock_fhe [(50, CreateSurvey 1 ''S1'' 100 200)] deployed)) = Inr []
   \<and> snd (transact mock_fhe 150 (SubmitEncryptedResponse 1 1 7 99 [1])
           (run mock_fhe [(50, CreateSurvey 1 ''S1'' 100 200)] deployed)) \<noteq> Inr [0]"
  by (simp add: transact_def op_defs deployed_def mock_fhe_def Let_def)

subsection \<open>The response counter\<close>

lemma unat_incr:
  fixes n :: uint256
  assumes "n \<noteq> - 1"
  shows "unat (n + 1) = unat n + 1"
proof -
  have "1 + n \<noteq> 0" using assms by (metis add.commute eq_neg_iff_add_eq_0)
  then show ?thesis using unatSuc [of n] by (simp add: add.commute)
qed

lemma unat_counts_step:
  "unat (responseCounts (fst (transact lib now c s)) sid)
     = unat (responseCounts s sid)
       + (if submits sid c \<and> \<not> isl (snd (transact lib now c s)) then 1 else 0)"
proof (cases c)
  case (SubmitEncryptedResponse sid' did' qid enc pf)
  show ?thesis
    using submit_success_count [of lib now sid did' qid enc pf s]
    by (auto simp: counts_step SubmitEncryptedResponse unat_incr)
qed (simp_all add: counts_step)

lemma length_responses_step:
  "length (responses (fst (transact lib now c s)) sid d)
     = length (responses s sid d)
       + (case c of
            SubmitEncryptedResponse sid' did' qid enc pf \<Rightarrow>
              if sid' = sid \<and> \<not> isl (snd (transact lib now c s)) then (if d = did' then 1 else 0)
              else 0
          | _ \<Rightarrow> 0)"
  by (cases c) (auto simp: responses_step)

lemma total_step:
  "(\<Sum>d\<in>UNIV. length (responses (fst (transact lib now c s)) sid d))
     = (\<Sum>d\<in>UNIV. length (responses s sid d))
       + (if submits sid c \<and> \<not> isl (snd (transact lib now c s)) then 1 else 0)"
proof (cases c)
  case (SubmitEncryptedResponse sid' did' qid enc pf)
  have one: "(\<Sum>d\<in>(UNIV :: uint256 set). if d = did' then 1 else 0) = (1 :: nat)"
    by simp
  show ?thesis
    using one by (auto simp: length_responses_step SubmitEncryptedResponse sum.distrib)
qed (simp_all add: length_responses_step)

lemma counter_run:
  "unat (responseCounts s sid) = (\<Sum>d\<in>UNIV. length (responses s sid d)) \<Longrightarrow>
   unat (responseCounts (run lib tcs s) sid)
     = (\<Sum>d\<in>UNIV. length (responses (run lib tcs s) sid d))"
proof (induction tcs arbitrary: s)
  case Nil
  then show ?case by simp
next
  case (Cons tc tcs)
  have "unat (responseCounts (fst (transact lib (fst tc) (snd tc) s)) sid)
          = (\<Sum>d\<in>UNIV. length (responses (fst (transact lib (fst tc) (snd tc) s)) sid d))"
    using Cons.prems by (simp only: unat_counts_step total_step)
  from Cons.IH [OF this] show ?case by simp
qed

text \<open>
  C6. In every state reachable from the deployed contract, and for every survey, the
  counter equals the sum over all departments of the lengths of the response
  sequences. In any state, a call adds exactly one to the counter of a survey when it
  is a submission for that survey that returns normally (without wrapping around), and
  leaves it as it is otherwise.
\<close>

theorem counter_is_total:
  "unat (getResponseCount (run lib tcs deployed) sid)
     = (\<Sum>d\<in>UNIV. length (responses (run lib tcs deployed) sid d))
   \<and> unat (getResponseCount (fst (transact lib now c s)) sid)
     = unat (getResponseCount s sid)
       + (if submits sid c \<and> \<not> isl (snd (transact lib now c s)) then 1 else 0)"
proof -
  have "unat (responseCounts deployed sid) = (\<Sum>d\<in>UNIV. length (responses deployed sid d))"
    by (simp add: deployed_def)
  from counter_run [OF this] show ?thesis
    by (simp only: getResponseCount_def unat_counts_step simp_thms)
qed

theorem counter_is_total_witness:
  "unat (getResponseCount (run mock_fhe scenario deployed) 1) = 1
   \<and> (\<Sum>d\<in>UNIV. length (responses (run mock_fhe scenario deployed) 1 d)) = 1
   \<and> \<not> isl (snd (transact mock_fhe 160 (SubmitEncryptedResponse 1 2 8 77 [1])
                  (run mock_fhe scenario deployed)))
   \<and> unat (getResponseCount
        (fst (transact mock_fhe 160 (SubmitEncryptedResponse 1 2 8 77 [1])
           (run mock_fhe scenario deployed))) 1) = 2"
proof -
  have ok: "\<not> isl (snd (transact mock_fhe 160 (SubmitEncryptedResponse 1 2 8 77 [1])
                      (run mock_fhe scenario deployed)))"
    by (simp add: submit_outcome run_scenario_survey run_scenario_count) (simp add: mock_fhe_def)
  show ?thesis
    using ok
      counter_is_total [of mock_fhe scenario 1 160 "SubmitEncryptedResponse 1 2 8 77 [1]"
        "run mock_fhe scenario deployed"]
    by (simp add: getResponseCount_def run_scenario_count)
qed

subsection \<open>The submission window\<close>

text \<open>
  The counter of a survey is at most the number of calls made so far, so it cannot be
  full after fewer than \<open>2^256 - 1\<close> calls.
\<close>

lemma counter_le_calls:
  "unat (responseCounts (run lib tcs s) sid) \<le> unat (responseCounts s sid) + length tcs"
proof (induction tcs arbitrary: s)
  case Nil
  show ?case by simp
next
  case (Cons tc tcs)
  have "unat (responseCounts (fst (transact lib (fst tc) (snd tc) s)) sid)
          \<le> unat (responseCounts s sid) + 1"
    by (simp add: unat_counts_step)
  with Cons.IH [of "fst (transact lib (fst tc) (snd tc) s)"] show ?case by simp
qed

lemma counter_not_full:
  assumes "length tcs < 2 ^ 256 - 1"
  shows "responseCounts (run lib tcs deployed) sid \<noteq> - 1"
proof
  assume full: "responseCounts (run lib tcs deployed) sid = - 1"
  have "unat (responseCounts (run lib tcs deployed) sid) \<le> length tcs"
    using counter_le_calls [of lib tcs deployed sid] by (simp add: deployed_def)
  moreover have "unat (- 1 :: uint256) = 2 ^ 256 - 1"
    by (simp add: unsigned_minus_1_eq_mask mask_eq_exp_minus_1)
  ultimately show False using assms full by simp
qed

text \<open>
  C7, as amended. The active flag is checked before the window. A submission fails with
  \<open>SurveyInactive\<close> exactly when the active flag of the survey is false, whatever the
  time, and with \<open>OutOfWindow\<close> exactly when the flag is true and the block timestamp
  is before \<open>startTime\<close> or after \<open>endTime\<close>. In every state reached from the deployed
  contract by fewer than \<open>2^256 - 1\<close> calls, a submission with the flag true,
  \<open>startTime \<le> now \<le> endTime\<close> and a ciphertext that validates returns normally;
  the ciphertext validates when the library accepts it at each call the function makes
  into it: \<^verbatim>\<open>FHE.fromExternal\<close> returns a handle, \<^verbatim>\<open>FHE.isInitialized\<close> holds of it,
  and \<^verbatim>\<open>FHE.allowThis\<close> and \<^verbatim>\<open>FHE.makePubliclyDecryptable\<close> return.
\<close>

theorem submit_window_gate:
  "(snd (transact lib now (SubmitEncryptedResponse sid did qid enc pf) s) = Inl SurveyInactive)
     = (\<not> isActive (surveys s sid))
   \<and> (snd (transact lib now (SubmitEncryptedResponse sid did qid enc pf) s) = Inl OutOfWindow)
     = (isActive (surveys s sid)
        \<and> (now < startTime (surveys s sid) \<or> now > endTime (surveys s sid)))
   \<and> (length tcs < 2 ^ 256 - 1
        \<and> isActive (surveys (run lib tcs deployed) sid)
        \<and> startTime (surveys (run lib tcs deployed) sid) \<le> now
        \<and> now \<le> endTime (surveys (run lib tcs deployed) sid)
        \<and> fromExternal lib enc pf = Some h \<and> isInitialized lib h
        \<and> allowThis lib h \<and> makePubliclyDecryptable lib h
      \<longrightarrow> snd (transact lib now (SubmitEncryptedResponse sid did qid enc pf)
                 (run lib tcs deployed)) = Inr [])"
proof -
  have inactive:
    "(snd (transact lib now (SubmitEncryptedResponse sid did qid enc pf) s) = Inl SurveyInactive)
       = (\<not> isActive (surveys s sid))"
    unfolding submit_outcome by (auto split: option.splits)
  have window:
    "(snd (transact lib now (SubmitEncryptedResponse sid did qid enc pf) s) = Inl OutOfWindow)
       = (isActive (surveys s sid)
          \<and> (now < startTime (surveys s sid) \<or> now > endTime (surveys s sid)))"
    unfolding submit_outcome by (auto split: option.splits)
  have accept:
    "snd (transact lib now (SubmitEncryptedResponse sid did qid enc pf) (run lib tcs deployed)) = Inr []"
    if "length tcs < 2 ^ 256 - 1"
      and "isActive (surveys (run lib tcs deployed) sid)"
      and "startTime (surveys (run lib tcs deployed) sid) \<le> now"
      and "now \<le> endTime (surveys (run lib tcs deployed) sid)"
      and "fromExternal lib enc pf = Some h" and "isInitialized lib h"
      and "allowThis lib h" and "makePubliclyDecryptable lib h"
    using that counter_not_full [OF that(1), of lib sid]
    by (simp add: submit_outcome not_less)
  show ?thesis using inactive window accept by blast
qed

theorem submit_window_gate_witness:
  "snd (transact mock_fhe 150 (SubmitEncryptedResponse 1 1 7 99 [1])
         (run mock_fhe closed_history deployed)) = Inl SurveyInactive
   \<and> snd (transact mock_fhe 250 (SubmitEncryptedResponse 1 1 7 99 [1])
           (run mock_fhe scenario deployed)) = Inl OutOfWindow
   \<and> length scenario < 2 ^ 256 - 1
   \<and> isActive (surveys (run mock_fhe scenario deployed) 1)
   \<and> startTime (surveys (run mock_fhe scenario deployed) 1) \<le> 160
   \<and> 160 \<le> endTime (surveys (run mock_fhe scenario deployed) 1)
   \<and> fromExternal mock_fhe 77 [1] = Some 77 \<and> isInitialized mock_fhe 77
   \<and> allowThis mock_fhe 77 \<and> makePubliclyDecryptable mock_fhe 77
   \<and> snd (transact mock_fhe 160 (SubmitEncryptedResponse 1 1 8 77 [1])
           (run mock_fhe scenario deployed)) = Inr []"
proof -
  have len: "length scenario < 2 ^ 256 - 1"
    by (simp add: scenario_def)
  have lib: "fromExternal mock_fhe 77 [1] = Some 77 \<and> isInitialized mock_fhe 77
             \<and> allowThis mock_fhe 77 \<and> makePubliclyDecryptable mock_fhe 77"
    by (simp add: mock_fhe_def)
  show ?thesis
    using len lib
      submit_window_gate [of mock_fhe 150 1 1 7 99 "[1]" "run mock_fhe closed_history deployed"]
      submit_window_gate [of mock_fhe 250 1 1 7 99 "[1]" "run mock_fhe scenario deployed"]
      submit_window_gate [of mock_fhe 160 1 1 8 77 "[1]" _ scenario 77]
    by (simp add: run_scenario_survey run_closed_survey)
qed

text \<open>
  The claim as stated fails on a closed survey: after its window a submission is
  refused with \<open>SurveyInactive\<close>, not with \<open>OutOfWindow\<close>.
\<close>

theorem submit_closed_survey_counterexample:
  "endTime (surveys (run mock_fhe closed_history deployed) 1) < 250
   \<and> snd (transact mock_fhe 250 (SubmitEncryptedResponse 1 1 7 99 [1])
           (run mock_fhe closed_history deployed)) = Inl SurveyInactive
   \<and> snd (transact mock_fhe 250 (SubmitEncryptedResponse 1 1 7 99 [1])
           (run mock_fhe closed_history deployed)) \<noteq> Inl OutOfWindow"
  by (simp add: closed_history_def transact_def op_defs deployed_def mock_fhe_def Let_def)

subsection \<open>Verification\<close>

text \<open>
  Sequences only grow; a verified entry stays verified, with its score; an entry stays
  unverified as long as no verification of it returns normally; an unverified entry
  has the score 0 and every entry carries the department of its sequence.
\<close>

lemma length_step:
  "length (responses s sid did) \<le> length (responses (fst (transact lib now c s)) sid did)"
  by (simp add: responses_step split: call.splits)

lemma length_run:
  "length (responses s sid did) \<le> length (responses (run lib tcs s) sid did)"
proof (induction tcs arbitrary: s)
  case Nil
  show ?case by simp
next
  case (Cons tc tcs)
  show ?case
    using length_step [of s sid did lib "fst tc" "snd tc"]
      Cons.IH [of "fst (transact lib (fst tc) (snd tc) s)"]
    by simp
qed

lemma verified_step:
  assumes "i < length (responses s sid did)" and "isVerified (responses s sid did ! i)"
  shows "isVerified (responses (fst (transact lib now c s)) sid did ! i)
         \<and> decryptedScore (responses (fst (transact lib now c s)) sid did ! i)
           = decryptedScore (responses s sid did ! i)"
proof (cases c)
  case (VerifyResponse sid' did' qid idx clr pf)
  show ?thesis
  proof (cases "sid' = sid \<and> did' = did \<and> unat idx = i")
    case True
    with assms have "snd (transact lib now c s) = Inl AlreadyVerified"
      by (simp add: VerifyResponse verify_outcome)
    then show ?thesis using assms by (simp add: transact_fail)
  next
    case False
    then show ?thesis using assms
      by (auto simp: responses_step VerifyResponse nth_list_update)
  qed
qed (use assms in \<open>auto simp: responses_step nth_append\<close>)

lemma verified_run:
  "i < length (responses s sid did) \<Longrightarrow> isVerified (responses s sid did ! i) \<Longrightarrow>
     isVerified (responses (run lib tcs s) sid did ! i)
     \<and> decryptedScore (responses (run lib tcs s) sid did ! i)
       = decryptedScore (responses s sid did ! i)"
proof (induction tcs arbitrary: s)
  case Nil
  then show ?case by simp
next
  case (Cons tc tcs)
  let ?s' = "fst (transact lib (fst tc) (snd tc) s)"
  have len: "i < length (responses ?s' sid did)"
    using Cons.prems(1) length_step [of s sid did lib "fst tc" "snd tc"] by simp
  have ver: "isVerified (responses ?s' sid did ! i)"
    and dec: "decryptedScore (responses ?s' sid did ! i) = decryptedScore (responses s sid did ! i)"
    using verified_step [OF Cons.prems, of lib "fst tc" "snd tc"] by simp_all
  show ?case using Cons.IH [OF len ver] dec by simp
qed

lemma unverified_step:
  assumes "unat idx < length (responses s sid did) \<longrightarrow> \<not> isVerified (responses s sid did ! unat idx)"
    and "\<not> (verifies sid did idx c \<and> \<not> isl (snd (transact lib now c s)))"
  shows "unat idx < length (responses (fst (transact lib now c s)) sid did)
           \<longrightarrow> \<not> isVerified (responses (fst (transact lib now c s)) sid did ! unat idx)"
  using assms
  by (cases c)
     (auto simp: responses_step nth_append nth_list_update word_unat_eq_iff split: if_splits)

lemma unverified_run:
  "(unat idx < length (responses s sid did) \<longrightarrow> \<not> isVerified (responses s sid did ! unat idx)) \<Longrightarrow>
   \<not> succeeded lib (verifies sid did idx) tcs s \<Longrightarrow>
   unat idx < length (responses (run lib tcs s) sid did) \<longrightarrow>
     \<not> isVerified (responses (run lib tcs s) sid did ! unat idx)"
proof (induction tcs arbitrary: s)
  case Nil
  then show ?case by simp
next
  case (Cons tc tcs)
  let ?s' = "fst (transact lib (fst tc) (snd tc) s)"
  from Cons.prems(2)
  have here: "\<not> (verifies sid did idx (snd tc) \<and> \<not> isl (snd (transact lib (fst tc) (snd tc) s)))"
    and later: "\<not> succeeded lib (verifies sid did idx) tcs ?s'"
    by simp_all
  have "unat idx < length (responses ?s' sid did) \<longrightarrow> \<not> isVerified (responses ?s' sid did ! unat idx)"
    by (rule unverified_step [OF Cons.prems(1) here])
  from Cons.IH [OF this later] show ?case by simp
qed

lemma entries_step:
  assumes "\<forall>i < length (responses s sid did).
             departmentId (responses s sid did ! i) = did
             \<and> (\<not> isVerified (responses s sid did ! i) \<longrightarrow> decryptedScore (responses s sid did ! i) = 0)"
  shows "\<forall>i < length (responses (fst (transact lib now c s)) sid did).
           departmentId (responses (fst (transact lib now c s)) sid did ! i) = did
           \<and> (\<not> isVerified (responses (fst (transact lib now c s)) sid did ! i)
                \<longrightarrow> decryptedScore (responses (fst (transact lib now c s)) sid did ! i) = 0)"
proof (cases c)
  case (VerifyResponse sid' did' qid idx clr pf)
  show ?thesis
  proof (cases "sid' = sid \<and> did' = did \<and> \<not> isl (snd (transact lib now c s))")
    case True
    then have "unat idx < length (responses s sid did)"
      using verify_success [of lib now sid did qid idx clr pf s] by (auto simp: VerifyResponse)
    then show ?thesis using assms True
      by (auto simp: responses_step VerifyResponse nth_list_update)
  next
    case False
    then show ?thesis using assms by (auto simp: responses_step VerifyResponse)
  qed
qed (use assms in \<open>auto simp: responses_step nth_append less_Suc_eq\<close>)

lemma entries_run:
  "\<forall>i < length (responses s sid did).
      departmentId (responses s sid did ! i) = did
      \<and> (\<not> isVerified (responses s sid did ! i) \<longrightarrow> decryptedScore (responses s sid did ! i) = 0) \<Longrightarrow>
   \<forall>i < length (responses (run lib tcs s) sid did).
      departmentId (responses (run lib tcs s) sid did ! i) = did
      \<and> (\<not> isVerified (responses (run lib tcs s) sid did ! i)
           \<longrightarrow> decryptedScore (responses (run lib tcs s) sid did ! i) = 0)"
proof (induction tcs arbitrary: s)
  case Nil
  then show ?case by simp
next
  case (Cons tc tcs)
  show ?case using Cons.IH [OF entries_step [OF Cons.prems]] by simp
qed

lemma deployed_unverified:
  "unat idx < length (responses deployed sid did) \<longrightarrow> \<not> isVerified (responses deployed sid did ! unat idx)"
  by (simp add: deployed_def)

lemma deployed_entries:
  "\<forall>i < length (responses deployed sid did).
      departmentId (responses deployed sid did ! i) = did
      \<and> (\<not> isVerified (responses deployed sid did ! i) \<longrightarrow> decryptedScore (responses deployed sid did ! i) = 0)"
  by (simp add: deployed_def)

lemma verify_effect:
  assumes "unat idx < length (responses s sid did)"
    and "\<not> isVerified (responses s sid did ! unat idx)"
    and "checkSignatures lib [toBytes32 lib (encryptedScore (responses s sid did ! unat idx))] clr pf"
    and "abi_decode_uint32 clr = Some v"
  shows "snd (transact lib now (VerifyResponse sid did qid idx clr pf) s) = Inr []"
    and "unat idx < length (responses (fst (transact lib now (VerifyResponse sid did qid idx clr pf) s)) sid did)"
    and "isVerified (responses (fst (transact lib now (VerifyResponse sid did qid idx clr pf) s)) sid did ! unat idx)"
    and "decryptedScore (responses (fst (transact lib now (VerifyResponse sid did qid idx clr pf) s)) sid did ! unat idx) = v"
proof -
  show ok: "snd (transact lib now (VerifyResponse sid did qid idx clr pf) s) = Inr []"
    using assms by (simp add: verify_outcome)
  show "unat idx < length (responses (fst (transact lib now (VerifyResponse sid did qid idx clr pf) s)) sid did)"
    using assms(1) ok by (simp add: responses_step)
  show "isVerified (responses (fst (transact lib now (VerifyResponse sid did qid idx clr pf) s)) sid did ! unat idx)"
    using assms(1) ok by (simp add: responses_step)
  show "decryptedScore (responses (fst (transact lib now (VerifyResponse sid did qid idx clr pf) s)) sid did ! unat idx) = v"
    using assms(1,4) ok by (simp add: responses_step)
qed

lemma verify_again:
  assumes "unat idx < length (responses s sid did)" and "isVerified (responses s sid did ! unat idx)"
  shows "transact lib now (VerifyResponse sid did qid idx clr pf) s = (s, Inl AlreadyVerified)"
proof -
  have "snd (transact lib now (VerifyResponse sid did qid idx clr pf) s) = Inl AlreadyVerified"
    using assms by (simp add: verify_outcome)
  then show ?thesis using transact_fail [of lib now _ s AlreadyVerified]
    by (metis prod.collapse)
qed

text \<open>
  C1. Take a stored response (a valid index in a state reached from the deployed
  contract) for which no verification has returned normally so far. A verification of
  it whose proof is accepted and whose clear value decodes returns normally and leaves
  the entry verified, with the decoded score. From then on, after any further history,
  every verification of the same \<open>(surveyId, departmentId, index)\<close>, with any question,
  clear value and proof, fails with \<open>AlreadyVerified\<close> and leaves the storage as it
  is; the entry is still verified and still has that score.
\<close>

theorem verify_exactly_once:
  fixes lib :: fhe and tcs0 tcs :: "(uint256 \<times> call) list"
    and now sid did qid idx :: uint256 and clr pf :: bytes
  defines "s0 \<equiv> run lib tcs0 deployed"
  defines "s1 \<equiv> fst (transact lib now (VerifyResponse sid did qid idx clr pf) s0)"
  defines "s2 \<equiv> run lib tcs s1"
  assumes "unat idx < length (responses s0 sid did)"
    and "\<not> succeeded lib (verifies sid did idx) tcs0 deployed"
    and "checkSignatures lib [toBytes32 lib (encryptedScore (responses s0 sid did ! unat idx))] clr pf"
    and "abi_decode_uint32 clr = Some v"
  shows "snd (transact lib now (VerifyResponse sid did qid idx clr pf) s0) = Inr []
     \<and> isVerified (responses s1 sid did ! unat idx)
     \<and> decryptedScore (responses s1 sid did ! unat idx) = v
     \<and> transact lib now' (VerifyResponse sid did qid' idx clr' pf') s2 = (s2, Inl AlreadyVerified)
     \<and> isVerified (responses s2 sid did ! unat idx)
     \<and> decryptedScore (responses s2 sid did ! unat idx) = v"
proof -
  have unv: "\<not> isVerified (responses s0 sid did ! unat idx)"
    using unverified_run [OF deployed_unverified assms(5)] assms(4) by (simp add: s0_def)
  note eff = verify_effect [OF assms(4) unv assms(6,7), of now qid, folded s1_def]
  have keep: "isVerified (responses s2 sid did ! unat idx)
              \<and> decryptedScore (responses s2 sid did ! unat idx) = v"
    using verified_run [OF eff(2,3), of lib tcs] eff(4) by (simp add: s2_def)
  have len2: "unat idx < length (responses s2 sid did)"
    using eff(2) length_run [of s1 sid did lib tcs] by (simp add: s2_def)
  show ?thesis
    using eff(1,3,4) keep verify_again [OF len2] by simp
qed

theorem verify_exactly_once_witness:
  "unat (0 :: uint256) < length (responses (run mock_fhe scenario deployed) 1 1)
   \<and> \<not> succeeded mock_fhe (verifies 1 1 0) scenario deployed
   \<and> checkSignatures mock_fhe
        [toBytes32 mock_fhe (encryptedScore (responses (run mock_fhe scenario deployed) 1 1 ! unat (0 :: uint256)))]
        clear8 clear8
   \<and> abi_decode_uint32 clear8 = Some 8
   \<and> snd (transact mock_fhe 250 (VerifyResponse 1 1 7 0 clear8 clear8)
           (run mock_fhe scenario deployed)) = Inr []
   \<and> transact mock_fhe 270 (VerifyResponse 1 1 7 0 clear8 clear8)
        (run mock_fhe [(260, CloseSurvey 1)]
           (fst (transact mock_fhe 250 (VerifyResponse 1 1 7 0 clear8 clear8)
              (run mock_fhe scenario deployed))))
       = (run mock_fhe [(260, CloseSurvey 1)]
           (fst (transact mock_fhe 250 (VerifyResponse 1 1 7 0 clear8 clear8)
              (run mock_fhe scenario deployed))),
          Inl AlreadyVerified)
   \<and> decryptedScore
        (responses
           (run mock_fhe [(260, CloseSurvey 1)]
              (fst (transact mock_fhe 250 (VerifyResponse 1 1 7 0 clear8 clear8)
                 (run mock_fhe scenario deployed)))) 1 1 ! unat (0 :: uint256)) = 8"
proof -
  have h1: "unat (0 :: uint256) < length (responses (run mock_fhe scenario deployed) 1 1)"
    by (simp add: run_scenario_responses)
  have h3: "checkSignatures mock_fhe
        [toBytes32 mock_fhe (encryptedScore (responses (run mock_fhe scenario deployed) 1 1 ! unat (0 :: uint256)))]
        clear8 clear8"
    by (simp add: mock_fhe_def)
  show ?thesis
    using h1 scenario_no_verify h3 clear8_decodes
      verify_exactly_once [OF h1 scenario_no_verify h3 clear8_decodes,
        where now = 250 and qid = 7 and now' = 270 and qid' = 7
          and tcs = "[(260, CloseSurvey 1)]" and clr' = clear8 and pf' = clear8]
    by blast
qed

text \<open>
  C5. For a stored response for which no verification has returned normally,
  \<^verbatim>\<open>getDecryptedResponse\<close> fails with \<open>NotYetVerified\<close>. If a verification of it
  then returns normally, its clear value decodes to some \<open>v\<close>, and after any further
  history \<^verbatim>\<open>getDecryptedResponse\<close> returns exactly \<open>v\<close>.
\<close>

theorem read_verified:
  fixes lib :: fhe and tcs0 :: "(uint256 \<times> call) list"
    and now sid did qid idx :: uint256 and clr pf :: bytes
  defines "s0 \<equiv> run lib tcs0 deployed"
  defines "s1 \<equiv> fst (transact lib now (VerifyResponse sid did qid idx clr pf) s0)"
  assumes "unat idx < length (responses s0 sid did)"
    and "\<not> succeeded lib (verifies sid did idx) tcs0 deployed"
  shows "getDecryptedResponse s0 sid did q idx = Inl NotYetVerified
     \<and> (snd (transact lib now (VerifyResponse sid did qid idx clr pf) s0) = Inr [] \<longrightarrow>
          (\<exists>v. abi_decode_uint32 clr = Some v
               \<and> getDecryptedResponse (run lib tcs s1) sid did q' idx = Inr v))"
proof -
  have unv: "\<not> isVerified (responses s0 sid did ! unat idx)"
    using unverified_run [OF deployed_unverified assms(4)] assms(3) by (simp add: s0_def)
  have first: "getDecryptedResponse s0 sid did q idx = Inl NotYetVerified"
    using assms(3) unv by (simp add: getDecryptedResponse_def)
  have later: "\<exists>v. abi_decode_uint32 clr = Some v
                 \<and> getDecryptedResponse (run lib tcs s1) sid did q' idx = Inr v"
    if ok: "snd (transact lib now (VerifyResponse sid did qid idx clr pf) s0) = Inr []"
  proof -
    from ok have "\<not> isl (snd (transact lib now (VerifyResponse sid did qid idx clr pf) s0))"
      by simp
    from verify_success [OF this] obtain v
      where sig: "checkSignatures lib [toBytes32 lib (encryptedScore (responses s0 sid did ! unat idx))] clr pf"
        and dec: "abi_decode_uint32 clr = Some v"
      by auto
    note eff = verify_effect [OF assms(3) unv sig dec, of now qid, folded s1_def]
    have "isVerified (responses (run lib tcs s1) sid did ! unat idx)
          \<and> decryptedScore (responses (run lib tcs s1) sid did ! unat idx) = v"
      using verified_run [OF eff(2,3), of lib tcs] eff(4) by simp
    moreover have "unat idx < length (responses (run lib tcs s1) sid did)"
      using eff(2) length_run [of s1 sid did lib tcs] by simp
    ultimately have "getDecryptedResponse (run lib tcs s1) sid did q' idx = Inr v"
      by (simp add: getDecryptedResponse_def)
    with dec show ?thesis by blast
  qed
  show ?thesis using first later by blast
qed

theorem read_verified_witness:
  "unat (0 :: uint256) < length (responses (run mock_fhe scenario deployed) 1 1)
   \<and> \<not> succeeded mock_fhe (verifies 1 1 0) scenario deployed
   \<and> getDecryptedResponse (run mock_fhe scenario deployed) 1 1 7 0 = Inl NotYetVerified
   \<and> snd (transact mock_fhe 250 (VerifyResponse 1 1 7 0 clear8 clear8)
           (run mock_fhe scenario deployed)) = Inr []
   \<and> getDecryptedResponse
        (run mock_fhe [(260, CloseSurvey 1)]
           (fst (transact mock_fhe 250 (VerifyResponse 1 1 7 0 clear8 clear8)
              (run mock_fhe scenario deployed)))) 1 1 7 0 = Inr 8"
proof -
  have h1: "unat (0 :: uint256) < length (responses (run mock_fhe scenario deployed) 1 1)"
    by (simp add: run_scenario_responses)
  have ok: "snd (transact mock_fhe 250 (VerifyResponse 1 1 7 0 clear8 clear8)
           (run mock_fhe scenario deployed)) = Inr []"
    by (simp add: verify_outcome run_scenario_responses clear8_decodes) (simp add: mock_fhe_def)
  show ?thesis
    using h1 scenario_no_verify ok clear8_decodes
      read_verified [OF h1 scenario_no_verify,
        where q = 7 and now = 250 and qid = 7 and clr = clear8 and pf = clear8
          and tcs = "[(260, CloseSurvey 1)]" and q' = 7]
    by auto
qed

text \<open>
  C9. For a stored response for which no verification has returned normally,
  \<^verbatim>\<open>getResponseDetails\<close> returns normally, with the department of the sequence, the
  stored question and timestamp, \<open>isVerified = false\<close> and \<open>decryptedScore = 0\<close>.
\<close>

theorem unverified_details:
  fixes lib :: fhe and tcs :: "(uint256 \<times> call) list"
  defines "s \<equiv> run lib tcs deployed"
  assumes "unat idx < length (responses s sid did)"
    and "\<not> succeeded lib (verifies sid did idx) tcs deployed"
  shows "getResponseDetails s sid did q idx
           = Inr (did, questionId (responses s sid did ! unat idx),
                  timestamp (responses s sid did ! unat idx), False, 0)"
proof -
  have unv: "\<not> isVerified (responses s sid did ! unat idx)"
    using unverified_run [OF deployed_unverified assms(3)] assms(2) by (simp add: s_def)
  have "departmentId (responses s sid did ! unat idx) = did
        \<and> decryptedScore (responses s sid did ! unat idx) = 0"
    using entries_run [where lib = lib and tcs = tcs, OF deployed_entries, of sid did] assms(2) unv by (simp add: s_def)
  then show ?thesis using assms(2) unv by (simp add: getResponseDetails_def Let_def)
qed

theorem unverified_details_witness:
  "unat (0 :: uint256) < length (responses (run mock_fhe scenario deployed) 1 1)
   \<and> \<not> succeeded mock_fhe (verifies 1 1 0) scenario deployed
   \<and> getResponseDetails (run mock_fhe scenario deployed) 1 1 7 0 = Inr (1, 7, 150, False, 0)"
proof -
  have h1: "unat (0 :: uint256) < length (responses (run mock_fhe scenario deployed) 1 1)"
    by (simp add: run_scenario_responses)
  show ?thesis
    using h1 scenario_no_verify unverified_details [OF h1 scenario_no_verify, where q = 7]
    by (simp add: run_scenario_responses)
qed

subsection \<open>Surveys that were never created\<close>

lemma blank_step:
  assumes "surveys s sid = \<lparr>surveyName = [], startTime = 0, endTime = 0, isActive = False\<rparr>"
    and "\<forall>d. responses s sid d = []"
    and "responseCounts s sid = 0"
    and "\<not> (creates sid c \<and> \<not> isl (snd (transact lib now c s)))"
  shows "surveys (fst (transact lib now c s)) sid
           = \<lparr>surveyName = [], startTime = 0, endTime = 0, isActive = False\<rparr>
         \<and> (\<forall>d. responses (fst (transact lib now c s)) sid d = [])
         \<and> responseCounts (fst (transact lib now c s)) sid = 0"
proof (cases "isl (snd (transact lib now c s))")
  case True
  then obtain e where "snd (transact lib now c s) = Inl e" by (cases "snd (transact lib now c s)") auto
  then show ?thesis using assms(1-3) by (simp add: transact_fail)
next
  case False
  show ?thesis
  proof (cases c)
    case (CreateSurvey sid' name st en)
    with assms(4) False have "sid' \<noteq> sid" by auto
    then show ?thesis using assms(1-3)
      by (simp add: CreateSurvey surveys_step responses_step counts_step)
  next
    case (SubmitEncryptedResponse sid' did' qid enc pf)
    with False assms(1) have "sid' \<noteq> sid" by (auto simp: submit_outcome)
    then show ?thesis using assms(1-3)
      by (simp add: SubmitEncryptedResponse surveys_step responses_step counts_step)
  next
    case (VerifyResponse sid' did' qid idx clr pf)
    with False assms(2) have "sid' \<noteq> sid" by (auto simp: verify_outcome)
    then show ?thesis using assms(1-3)
      by (simp add: VerifyResponse surveys_step responses_step counts_step)
  next
    case (CloseSurvey sid')
    with False assms(1) have "sid' \<noteq> sid" by (auto simp: close_outcome)
    then show ?thesis using assms(1-3)
      by (simp add: CloseSurvey surveys_step responses_step counts_step)
  qed
qed

lemma blank_run:
  "surveys s sid = \<lparr>surveyName = [], startTime = 0, endTime = 0, isActive = False\<rparr> \<Longrightarrow>
   \<forall>d. responses s sid d = [] \<Longrightarrow>
   responseCounts s sid = 0 \<Longrightarrow>
   \<not> succeeded lib (creates sid) tcs s \<Longrightarrow>
   surveys (run lib tcs s) sid = \<lparr>surveyName = [], startTime = 0, endTime = 0, isActive = False\<rparr>
   \<and> (\<forall>d. responses (run lib tcs s) sid d = [])
   \<and> responseCounts (run lib tcs s) sid = 0"
proof (induction tcs arbitrary: s)
  case Nil
  then show ?case by simp
next
  case (Cons tc tcs)
  let ?s' = "fst (transact lib (fst tc) (snd tc) s)"
  from Cons.prems(4)
  have here: "\<not> (creates sid (snd tc) \<and> \<not> isl (snd (transact lib (fst tc) (snd tc) s)))"
    and later: "\<not> succeeded lib (creates sid) tcs ?s'"
    by simp_all
  from blank_step [OF Cons.prems(1-3) here]
  have "surveys ?s' sid = \<lparr>surveyName = [], startTime = 0, endTime = 0, isActive = False\<rparr>"
    and "\<forall>d. responses ?s' sid d = []" and "responseCounts ?s' sid = 0"
    by simp_all
  from Cons.IH [OF this later] show ?case by simp
qed

text \<open>
  C10. For a survey on which no \<^verbatim>\<open>createSurvey\<close> has returned normally, the contract
  answers from the zero record: the metadata are the empty name, a zero window and an
  inactive flag; a submission fails with \<open>SurveyInactive\<close>, \<^verbatim>\<open>closeSurvey\<close> with
  \<open>SurveyAlreadyClosed\<close>; the counter is 0; and for every department and index the two
  readers of a response, \<^verbatim>\<open>verifyResponse\<close> and \<^verbatim>\<open>getDecryptedResponse\<close> fail with
  \<open>IndexOutOfRange\<close>.
\<close>

theorem never_created_survey:
  fixes lib :: fhe and tcs :: "(uint256 \<times> call) list"
  defines "s \<equiv> run lib tcs deployed"
  assumes "\<not> succeeded lib (creates sid) tcs deployed"
  shows "getSurveyMetadata s sid = ([], 0, 0, False)
     \<and> snd (transact lib now (SubmitEncryptedResponse sid did qid enc pf) s) = Inl SurveyInactive
     \<and> snd (transact lib now (CloseSurvey sid) s) = Inl SurveyAlreadyClosed
     \<and> getResponseCount s sid = 0
     \<and> getEncryptedResponse s sid did qid idx = Inl IndexOutOfRange
     \<and> getResponseDetails s sid did qid idx = Inl IndexOutOfRange
     \<and> snd (transact lib now (VerifyResponse sid did qid idx clr dp) s) = Inl IndexOutOfRange
     \<and> getDecryptedResponse s sid did qid idx = Inl IndexOutOfRange"
proof -
  have "surveys s sid = \<lparr>surveyName = [], startTime = 0, endTime = 0, isActive = False\<rparr>
        \<and> (\<forall>d. responses s sid d = []) \<and> responseCounts s sid = 0"
    unfolding s_def by (rule blank_run [OF _ _ _ assms(2)]) (simp_all add: deployed_def)
  then show ?thesis
    by (simp add: getSurveyMetadata_def submit_outcome close_outcome getResponseCount_def
          getEncryptedResponse_def getResponseDetails_def verify_outcome getDecryptedResponse_def)
qed

theorem never_created_survey_witness:
  "\<not> succeeded mock_fhe (creates 2) scenario deployed
   \<and> getSurveyMetadata (run mock_fhe scenario deployed) 2 = ([], 0, 0, False)
   \<and> snd (transact mock_fhe 150 (SubmitEncryptedResponse 2 1 7 99 [1]) (run mock_fhe scenario deployed))
       = Inl SurveyInactive
   \<and> snd (transact mock_fhe 150 (CloseSurvey 2) (run mock_fhe scenario deployed))
       = Inl SurveyAlreadyClosed
   \<and> getResponseCount (run mock_fhe scenario deployed) 2 = 0
   \<and> getEncryptedResponse (run mock_fhe scenario deployed) 2 1 7 0 = Inl IndexOutOfRange
   \<and> getResponseDetails (run mock_fhe scenario deployed) 2 1 7 0 = Inl IndexOutOfRange
   \<and> snd (transact mock_fhe 150 (VerifyResponse 2 1 7 0 clear8 clear8) (run mock_fhe scenario deployed))
       = Inl IndexOutOfRange
   \<and> getDecryptedResponse (run mock_fhe scenario deployed) 2 1 7 0 = Inl IndexOutOfRange"
proof -
  have h: "\<not> succeeded mock_fhe (creates 2) scenario deployed"
    by (simp add: scenario_def)
  show ?thesis
    using h never_created_survey [OF h, where now = 150 and did = 1 and qid = 7 and enc = 99
        and pf = "[1]" and idx = 0 and clr = clear8 and dp = clear8]
    by blast
qed

end
